theory Spec2Isabelle
  imports Complex_Main
begin

section \<open>Builtins of the Python runtime used by the handlers\<close>

text \<open>
  Form fields arrive as text. The model covers ASCII text: a Python \<open>str\<close> is a
  \<^typ>\<open>string\<close>, one \<^typ>\<open>char\<close> per code point below 128.

  \<open>str.upper()\<close> maps the letters a..z to A..Z and leaves every other ASCII
  character alone.
\<close>

definition islower :: "char \<Rightarrow> bool" where
  "islower c = (c \<in> set ''abcdefghijklmnopqrstuvwxyz'')"

definition upper_char :: "char \<Rightarrow> char" where
  "upper_char c =
     (case map_of (zip ''abcdefghijklmnopqrstuvwxyz'' ''ABCDEFGHIJKLMNOPQRSTUVWXYZ'') c of
        None \<Rightarrow> c
      | Some u \<Rightarrow> u)"

definition upper :: "string \<Rightarrow> string" where
  "upper s = map upper_char s"

text \<open>
  \<open>int(s)\<close> in base 10: surrounding whitespace is dropped, one sign is allowed, then
  come decimal digits, which single underscores may separate. Anything else raises
  ValueError, here the value \<open>None\<close>. On an ASCII text \<open>int\<close> drops the
  characters 9 to 13 and the blank only; the separators 28 to 31 are not dropped, so a
  text that holds one raises ValueError. A text of more than \<open>int_max_str_digits\<close>
  digits raises ValueError too (the default limit of CPython); underscores and the sign
  do not count as digits.
\<close>

definition isspace :: "char \<Rightarrow> bool" where
  "isspace c = (c \<in> set [CHR 0x09, CHR 0x0A, CHR 0x0B, CHR 0x0C, CHR 0x0D, CHR '' ''])"

definition int_max_str_digits :: nat where
  "int_max_str_digits = 4300"

definition digit_of :: "char \<Rightarrow> int option" where
  "digit_of c = map_of (zip ''0123456789'' [0, 1, 2, 3, 4, 5, 6, 7, 8, 9]) c"

definition strip :: "string \<Rightarrow> string" where
  "strip s = rev (dropWhile isspace (rev (dropWhile isspace s)))"

text \<open>The flag says whether the character just read was a digit.\<close>

fun py_digits :: "bool \<Rightarrow> int \<Rightarrow> string \<Rightarrow> int option" where
  "py_digits prev acc [] = (if prev then Some acc else None)"
| "py_digits prev acc (c # cs) =
     (case digit_of c of
        Some v \<Rightarrow> py_digits True (10 * acc + v) cs
      | None \<Rightarrow> if c = CHR ''_'' \<and> prev then py_digits False acc cs else None)"

definition py_int :: "string \<Rightarrow> int option" where
  "py_int s =
     (if int_max_str_digits < length (filter (\<lambda>c. digit_of c \<noteq> None) (strip s)) then None
      else
        (case strip s of
           [] \<Rightarrow> None
         | c # cs \<Rightarrow>
             if c = CHR ''+'' then py_digits False 0 cs
             else if c = CHR ''-'' then map_option uminus (py_digits False 0 cs)
             else py_digits False 0 (c # cs)))"

text \<open>
  A Python float is a finite binary fraction, an infinity or a NaN. The handlers only
  compare a price with zero; \<open>preco <= 0\<close> is false for a NaN.
\<close>

datatype pyfloat = Finite rat | Infinity | Neg_Infinity | NaN

fun le_zero :: "pyfloat \<Rightarrow> bool" where
  "le_zero (Finite r) = (r \<le> 0)"
| "le_zero Infinity = False"
| "le_zero Neg_Infinity = True"
| "le_zero NaN = False"

section \<open>Data model\<close>

text \<open>The three tables, with the columns the statements of \<open>app.py\<close> name.\<close>

record usuario_row =
  ID_USUARIO :: int
  EMAIL :: string
  SENHA :: string
  NOME :: string

record autopeca_row =
  ID_PECA :: int
  NOME_PECA :: string
  DESCRICAO :: string
  ESTOQUE :: int
  ESTOQUE_MINIMO :: int
  NUM_SERIAL :: string
  COMPATIBILIDADE :: string
  PRECO :: pyfloat

record movimentacao_row =
  MOVI_ID_USUARIO :: int
  MOVI_ID_PECA :: int
  DATA_MOVI :: string
  QUANTIDADE :: int
  TIPO_MOVI :: string

text \<open>\<open>prox_id_peca\<close> is the AUTO\_INCREMENT counter of \<open>autopeca.ID_PECA\<close>.\<close>

record database =
  usuario :: "usuario_row list"
  autopeca :: "autopeca_row list"
  movimentacoes :: "movimentacao_row list"
  prox_id_peca :: int

text \<open>The statements the handlers send, with their parameters in the order of the source.\<close>

datatype sql =
    Select_autopeca_like string string
  | Select_autopeca_all
  | Insert_autopeca string string int int string string pyfloat
  | Select_autopeca_by_id int
  | Update_autopeca string string int int string string pyfloat int
  | Delete_autopeca int
  | Select_movimentacoes
  | Insert_movimentacoes int int string int string
  | Update_estoque int int
  | Commit

text \<open>
  What an accepted statement does to the tables. The connection runs with autocommit,
  so each statement's change is persistent as soon as it is accepted.
\<close>

fun effect :: "sql \<Rightarrow> database \<Rightarrow> database" where
  "effect (Insert_autopeca nome descr est est_min serie compatib preco) d =
     d\<lparr>autopeca := autopeca d @
          [\<lparr>ID_PECA = prox_id_peca d, NOME_PECA = nome, DESCRICAO = descr, ESTOQUE = est,
            ESTOQUE_MINIMO = est_min, NUM_SERIAL = serie, COMPATIBILIDADE = compatib,
            PRECO = preco\<rparr>],
       prox_id_peca := prox_id_peca d + 1\<rparr>"
| "effect (Update_autopeca nome descr est est_min serie compatib preco i) d =
     d\<lparr>autopeca := map (\<lambda>r. if ID_PECA r = i
          then r\<lparr>NOME_PECA := nome, DESCRICAO := descr, ESTOQUE := est,
                 ESTOQUE_MINIMO := est_min, NUM_SERIAL := serie, COMPATIBILIDADE := compatib,
                 PRECO := preco\<rparr>
          else r) (autopeca d)\<rparr>"
| "effect (Delete_autopeca i) d = d\<lparr>autopeca := filter (\<lambda>r. ID_PECA r \<noteq> i) (autopeca d)\<rparr>"
| "effect (Insert_movimentacoes uid i data qtd tipo) d =
     d\<lparr>movimentacoes := movimentacoes d @
          [\<lparr>MOVI_ID_USUARIO = uid, MOVI_ID_PECA = i, DATA_MOVI = data, QUANTIDADE = qtd,
            TIPO_MOVI = tipo\<rparr>]\<rparr>"
| "effect (Update_estoque novo i) d =
     d\<lparr>autopeca := map (\<lambda>r. if ID_PECA r = i then r\<lparr>ESTOQUE := novo\<rparr> else r) (autopeca d)\<rparr>"
| "effect _ d = d"

section \<open>Environment, session and responses\<close>

text \<open>
  What a request cannot control: whether \<open>pymysql.connect\<close> succeeds (and the
  exception it raises otherwise), which statements the engine refuses with a
  \<open>pymysql.Error\<close> (its text) in which state of the tables, the value of
  \<open>float(s)\<close>, the clock read by \<open>datetime.now().strftime(...)\<close>, and the
  collation of the engine: its \<open>LIKE\<close> and its two orderings.
\<close>

datatype conn_failure = MySQL_error string | General_error string

record env =
  connect :: "conn_failure option"
  rejects :: "sql \<Rightarrow> database \<Rightarrow> string option"
  float_of :: "string \<Rightarrow> pyfloat option"
  now :: string
  like :: "string \<Rightarrow> string \<Rightarrow> bool"
  order_by_nome :: "autopeca_row list \<Rightarrow> autopeca_row list"
  order_by_data_desc ::
    "(movimentacao_row \<times> string \<times> string) list \<Rightarrow> (movimentacao_row \<times> string \<times> string) list"

datatype category = Error | Warning | Success

text \<open>
  The flashed messages, one constructor per message of the source; an argument is a
  value the f-string interpolates.
  \<^item> \<open>Erro_conectar_MySQL e\<close>: "Erro ao conectar com o banco de dados MySQL: e"
  \<^item> \<open>Erro_geral_conectar e\<close>: "Erro geral ao conectar: e"
  \<^item> \<open>Erro_buscar_autopecas e\<close>: "Erro ao buscar autopecas: e"
  \<^item> \<open>Valores_invalidos_add\<close>: "Valores numericos invalidos. Verifique estoque e preco."
  \<^item> \<open>Valores_invalidos_update\<close>: "Valores numericos invalidos!"
  \<^item> \<open>Estoque_negativo\<close>: "Estoque nao pode ser negativo"
  \<^item> \<open>Estoque_minimo_negativo\<close>: "Estoque minimo nao pode ser negativo"
  \<^item> \<open>Preco_nao_positivo\<close>: "Preco deve ser maior que zero"
  \<^item> \<open>Autopeca_adicionada\<close>: "Autopeca adicionada com sucesso!"
  \<^item> \<open>Erro_adicionar e\<close>: "Erro ao adicionar autopeca: e"
  \<^item> \<open>Erro_buscar_autopeca e\<close>: "Erro ao buscar autopeca: e"
  \<^item> \<open>Autopeca_nao_encontrada\<close>: "Autopeca nao encontrada!"
  \<^item> \<open>Autopeca_atualizada\<close>: "Autopeca atualizada com sucesso!"
  \<^item> \<open>Erro_atualizar e\<close>: "Erro ao atualizar autopeca: e"
  \<^item> \<open>Autopeca_excluida\<close>: "Autopeca excluida com sucesso!"
  \<^item> \<open>Erro_excluir e\<close>: "Erro ao excluir autopeca: e"
  \<^item> \<open>Erro_carregar_estoque e\<close>: "Erro ao carregar dados de estoque: e"
  \<^item> \<open>Estoque_insuficiente\<close>: "Estoque insuficiente para esta movimentacao!"
  \<^item> \<open>Alerta_estoque_minimo nome novo minimo\<close>: "ALERTA: Estoque da peca "nome" esta
    abaixo do minimo! Estoque atual: novo, Minimo: minimo"
  \<^item> \<open>Movimentacao_registrada\<close>: "Movimentacao registrada com sucesso!"
  \<^item> \<open>Erro_registrar_movimentacao e\<close>: "Erro ao registrar movimentacao: e"
\<close>

datatype message =
    Erro_conectar_MySQL string
  | Erro_geral_conectar string
  | Erro_buscar_autopecas string
  | Valores_invalidos_add
  | Valores_invalidos_update
  | Estoque_negativo
  | Estoque_minimo_negativo
  | Preco_nao_positivo
  | Autopeca_adicionada
  | Erro_adicionar string
  | Erro_buscar_autopeca string
  | Autopeca_nao_encontrada
  | Autopeca_atualizada
  | Erro_atualizar string
  | Autopeca_excluida
  | Erro_excluir string
  | Erro_carregar_estoque string
  | Estoque_insuficiente
  | Alerta_estoque_minimo string int int
  | Movimentacao_registrada
  | Erro_registrar_movimentacao string

text \<open>
  The Flask session: the login marker \<open>user_id\<close>, the display name, and the flashed
  messages waiting for the next page (Flask keeps them in the session).
\<close>

record session =
  user_id :: "int option"
  user_name :: "string option"
  flashes :: "(category \<times> message) list"

text \<open>
  Everything a handler can change. \<open>connect_calls\<close> counts the calls of
  \<open>pymysql.connect\<close>, so that "no connection is opened" is a statement about the
  state.
\<close>

record world =
  session :: session
  db :: database
  connect_calls :: nat

record request =
  form :: "string \<rightharpoonup> string"
  args :: "string \<rightharpoonup> string"

datatype endpoint = Login | Dashboard | Autopecas | Edit_autopeca int | Estoque

datatype response =
    Redirect endpoint
  | Render_dashboard
  | Render_autopecas "autopeca_row list" string
  | Render_edit_autopeca autopeca_row
  | Render_estoque "autopeca_row list" "(movimentacao_row \<times> string \<times> string) list"

text \<open>
  An exception that leaves a handler: \<open>int()\<close> raises ValueError, and
  \<open>request.form[key]\<close> raises BadRequestKeyError for a field the form does not have.
\<close>

datatype exn = ValueError | BadRequestKeyError string

type_synonym outcome = "(exn + response) \<times> world"

definition flash :: "message \<Rightarrow> category \<Rightarrow> world \<Rightarrow> world" where
  "flash m c w = w\<lparr>session := (session w)\<lparr>flashes := flashes (session w) @ [(c, m)]\<rparr>\<rparr>"

definition get_db_connection :: "env \<Rightarrow> world \<Rightarrow> bool \<times> world" where
  "get_db_connection e w =
     (let w1 = w\<lparr>connect_calls := connect_calls w + 1\<rparr> in
      case connect e of
        None \<Rightarrow> (True, w1)
      | Some (MySQL_error x) \<Rightarrow> (False, flash (Erro_conectar_MySQL x) Error w1)
      | Some (General_error x) \<Rightarrow> (False, flash (Erro_geral_conectar x) Error w1))"

text \<open>\<open>cursor.execute\<close> and \<open>conn.commit\<close>: the engine's refusal is the left value.\<close>

definition execute :: "env \<Rightarrow> sql \<Rightarrow> world \<Rightarrow> string + world" where
  "execute e q w =
     (case rejects e q (db w) of
        Some x \<Rightarrow> Inl x
      | None \<Rightarrow> Inr (w\<lparr>db := effect q (db w)\<rparr>))"

text \<open>The rows the SELECT statements return.\<close>

definition rows_by_id :: "database \<Rightarrow> int \<Rightarrow> autopeca_row list" where
  "rows_by_id d i = filter (\<lambda>r. ID_PECA r = i) (autopeca d)"

definition fetchone :: "'a list \<Rightarrow> 'a option" where
  "fetchone rows = (case rows of [] \<Rightarrow> None | r # _ \<Rightarrow> Some r)"

definition rows_like :: "env \<Rightarrow> database \<Rightarrow> string \<Rightarrow> string \<Rightarrow> autopeca_row list" where
  "rows_like e d p1 p2 =
     order_by_nome e (filter (\<lambda>r. like e (NOME_PECA r) p1 \<or> like e (NUM_SERIAL r) p2) (autopeca d))"

definition rows_all :: "env \<Rightarrow> database \<Rightarrow> autopeca_row list" where
  "rows_all e d = order_by_nome e (autopeca d)"

definition rows_movimentacoes :: "env \<Rightarrow> database \<Rightarrow> (movimentacao_row \<times> string \<times> string) list" where
  "rows_movimentacoes e d =
     take 10 (order_by_data_desc e
       (concat (map (\<lambda>m.
          concat (map (\<lambda>a.
            map (\<lambda>u. (m, NOME_PECA a, NOME u))
              (filter (\<lambda>u. MOVI_ID_USUARIO m = ID_USUARIO u) (usuario d)))
            (filter (\<lambda>a. MOVI_ID_PECA m = ID_PECA a) (autopeca d))))
          (movimentacoes d))))"

section \<open>The route handlers\<close>

definition index :: "world \<Rightarrow> outcome" where
  "index w =
     (if user_id (session w) \<noteq> None then (Inr (Redirect Dashboard), w)
      else (Inr (Redirect Login), w))"

definition logout :: "world \<Rightarrow> outcome" where
  "logout w =
     (Inr (Redirect Login), w\<lparr>session := \<lparr>user_id = None, user_name = None, flashes = []\<rparr>\<rparr>)"

definition dashboard :: "world \<Rightarrow> outcome" where
  "dashboard w =
     (if user_id (session w) = None then (Inr (Redirect Login), w)
      else (Inr Render_dashboard, w))"

definition autopecas :: "env \<Rightarrow> request \<Rightarrow> world \<Rightarrow> outcome" where
  "autopecas e req w =
     (if user_id (session w) = None then (Inr (Redirect Login), w)
      else
        let search = (case args req ''search'' of None \<Rightarrow> [] | Some s \<Rightarrow> s) in
        (case get_db_connection e w of (conn, w1) \<Rightarrow>
          if conn then
            (if search \<noteq> [] then
               (case execute e (Select_autopeca_like (''%'' @ search @ ''%'') (''%'' @ search @ ''%'')) w1 of
                  Inl x \<Rightarrow> (Inr (Render_autopecas [] search), flash (Erro_buscar_autopecas x) Error w1)
                | Inr w2 \<Rightarrow>
                    (Inr (Render_autopecas
                       (rows_like e (db w2) (''%'' @ search @ ''%'') (''%'' @ search @ ''%'')) search), w2))
             else
               (case execute e Select_autopeca_all w1 of
                  Inl x \<Rightarrow> (Inr (Render_autopecas [] search), flash (Erro_buscar_autopecas x) Error w1)
                | Inr w2 \<Rightarrow> (Inr (Render_autopecas (rows_all e (db w2)) search), w2)))
          else (Inr (Render_autopecas [] search), w1)))"

definition add_autopeca :: "env \<Rightarrow> request \<Rightarrow> world \<Rightarrow> outcome" where
  "add_autopeca e req w =
     (if user_id (session w) = None then (Inr (Redirect Login), w)
      else
        (case form req ''nome_peca'' of
           None \<Rightarrow> (Inl (BadRequestKeyError ''nome_peca''), w)
         | Some nome_peca \<Rightarrow>
        (case form req ''descricao'' of
           None \<Rightarrow> (Inl (BadRequestKeyError ''descricao''), w)
         | Some descricao \<Rightarrow>
        (case form req ''num_serie'' of
           None \<Rightarrow> (Inl (BadRequestKeyError ''num_serie''), w)
         | Some num_serie \<Rightarrow>
        (case form req ''compatibilidade'' of
           None \<Rightarrow> (Inl (BadRequestKeyError ''compatibilidade''), w)
         | Some compatibilidade \<Rightarrow>
        (case form req ''estoque'' of
           None \<Rightarrow> (Inl (BadRequestKeyError ''estoque''), w)
         | Some s1 \<Rightarrow>
        (case py_int s1 of
           None \<Rightarrow> (Inr (Redirect Autopecas), flash Valores_invalidos_add Error w)
         | Some estoque \<Rightarrow>
        (case form req ''estoque_minimo'' of
           None \<Rightarrow> (Inl (BadRequestKeyError ''estoque_minimo''), w)
         | Some s2 \<Rightarrow>
        (case py_int s2 of
           None \<Rightarrow> (Inr (Redirect Autopecas), flash Valores_invalidos_add Error w)
         | Some estoque_minimo \<Rightarrow>
        (case form req ''preco'' of
           None \<Rightarrow> (Inl (BadRequestKeyError ''preco''), w)
         | Some s3 \<Rightarrow>
        (case float_of e s3 of
           None \<Rightarrow> (Inr (Redirect Autopecas), flash Valores_invalidos_add Error w)
         | Some preco \<Rightarrow>
        if estoque < 0 then (Inr (Redirect Autopecas), flash Estoque_negativo Error w)
        else if estoque_minimo < 0 then (Inr (Redirect Autopecas), flash Estoque_minimo_negativo Error w)
        else if le_zero preco then (Inr (Redirect Autopecas), flash Preco_nao_positivo Error w)
        else
          (case get_db_connection e w of (conn, w1) \<Rightarrow>
            if conn then
              (case execute e (Insert_autopeca nome_peca descricao estoque estoque_minimo num_serie compatibilidade preco) w1 of
                 Inl x \<Rightarrow> (Inr (Redirect Autopecas), flash (Erro_adicionar x) Error w1)
               | Inr w2 \<Rightarrow>
                   (case execute e Commit w2 of
                      Inl x \<Rightarrow> (Inr (Redirect Autopecas), flash (Erro_adicionar x) Error w2)
                    | Inr w3 \<Rightarrow> (Inr (Redirect Autopecas), flash Autopeca_adicionada Success w3)))
            else (Inr (Redirect Autopecas), w1))
        )))))))))))"

definition edit_autopeca :: "env \<Rightarrow> int \<Rightarrow> world \<Rightarrow> outcome" where
  "edit_autopeca e i w =
     (if user_id (session w) = None then (Inr (Redirect Login), w)
      else
        (case get_db_connection e w of (conn, w1) \<Rightarrow>
          (case (if conn then
                   (case execute e (Select_autopeca_by_id i) w1 of
                      Inl x \<Rightarrow> (None, flash (Erro_buscar_autopeca x) Error w1)
                    | Inr w2 \<Rightarrow> (fetchone (rows_by_id (db w2) i), w2))
                 else (None, w1)) of
             (autopeca_row, w3) \<Rightarrow>
               (case autopeca_row of
                  None \<Rightarrow> (Inr (Redirect Autopecas), flash Autopeca_nao_encontrada Error w3)
                | Some a \<Rightarrow> (Inr (Render_edit_autopeca a), w3)))))"

definition update_autopeca :: "env \<Rightarrow> int \<Rightarrow> request \<Rightarrow> world \<Rightarrow> outcome" where
  "update_autopeca e i req w =
     (if user_id (session w) = None then (Inr (Redirect Login), w)
      else
        (case form req ''nome_peca'' of
           None \<Rightarrow> (Inl (BadRequestKeyError ''nome_peca''), w)
         | Some nome_peca \<Rightarrow>
        (case form req ''descricao'' of
           None \<Rightarrow> (Inl (BadRequestKeyError ''descricao''), w)
         | Some descricao \<Rightarrow>
        (case form req ''num_serie'' of
           None \<Rightarrow> (Inl (BadRequestKeyError ''num_serie''), w)
         | Some num_serie \<Rightarrow>
        (case form req ''compatibilidade'' of
           None \<Rightarrow> (Inl (BadRequestKeyError ''compatibilidade''), w)
         | Some compatibilidade \<Rightarrow>
        (case form req ''estoque'' of
           None \<Rightarrow> (Inl (BadRequestKeyError ''estoque''), w)
         | Some s1 \<Rightarrow>
        (case py_int s1 of
           None \<Rightarrow> (Inr (Redirect (Edit_autopeca i)), flash Valores_invalidos_update Error w)
         | Some estoque \<Rightarrow>
        (case form req ''estoque_minimo'' of
           None \<Rightarrow> (Inl (BadRequestKeyError ''estoque_minimo''), w)
         | Some s2 \<Rightarrow>
        (case py_int s2 of
           None \<Rightarrow> (Inr (Redirect (Edit_autopeca i)), flash Valores_invalidos_update Error w)
         | Some estoque_minimo \<Rightarrow>
        (case form req ''preco'' of
           None \<Rightarrow> (Inl (BadRequestKeyError ''preco''), w)
         | Some s3 \<Rightarrow>
        (case float_of e s3 of
           None \<Rightarrow> (Inr (Redirect (Edit_autopeca i)), flash Valores_invalidos_update Error w)
         | Some preco \<Rightarrow>
        if estoque < 0 then (Inr (Redirect (Edit_autopeca i)), flash Estoque_negativo Error w)
        else if estoque_minimo < 0 then (Inr (Redirect (Edit_autopeca i)), flash Estoque_minimo_negativo Error w)
        else if le_zero preco then (Inr (Redirect (Edit_autopeca i)), flash Preco_nao_positivo Error w)
        else
          (case get_db_connection e w of (conn, w1) \<Rightarrow>
            if conn then
              (case execute e (Update_autopeca nome_peca descricao estoque estoque_minimo num_serie compatibilidade preco i) w1 of
                 Inl x \<Rightarrow> (Inr (Redirect Autopecas), flash (Erro_atualizar x) Error w1)
               | Inr w2 \<Rightarrow>
                   (case execute e Commit w2 of
                      Inl x \<Rightarrow> (Inr (Redirect Autopecas), flash (Erro_atualizar x) Error w2)
                    | Inr w3 \<Rightarrow> (Inr (Redirect Autopecas), flash Autopeca_atualizada Success w3)))
            else (Inr (Redirect Autopecas), w1))
        )))))))))))"

definition delete_autopeca :: "env \<Rightarrow> int \<Rightarrow> world \<Rightarrow> outcome" where
  "delete_autopeca e i w =
     (if user_id (session w) = None then (Inr (Redirect Login), w)
      else
        (case get_db_connection e w of (conn, w1) \<Rightarrow>
          if conn then
            (case execute e (Delete_autopeca i) w1 of
               Inl x \<Rightarrow> (Inr (Redirect Autopecas), flash (Erro_excluir x) Error w1)
             | Inr w2 \<Rightarrow>
                 (case execute e Commit w2 of
                    Inl x \<Rightarrow> (Inr (Redirect Autopecas), flash (Erro_excluir x) Error w2)
                  | Inr w3 \<Rightarrow> (Inr (Redirect Autopecas), flash Autopeca_excluida Success w3)))
          else (Inr (Redirect Autopecas), w1)))"

definition estoque :: "env \<Rightarrow> world \<Rightarrow> outcome" where
  "estoque e w =
     (if user_id (session w) = None then (Inr (Redirect Login), w)
      else
        (case get_db_connection e w of (conn, w1) \<Rightarrow>
          if conn then
            (case execute e Select_autopeca_all w1 of
               Inl x \<Rightarrow> (Inr (Render_estoque [] []), flash (Erro_carregar_estoque x) Error w1)
             | Inr w2 \<Rightarrow>
                 (case execute e Select_movimentacoes w2 of
                    Inl x \<Rightarrow>
                      (Inr (Render_estoque (rows_all e (db w2)) []),
                       flash (Erro_carregar_estoque x) Error w2)
                  | Inr w3 \<Rightarrow>
                      (Inr (Render_estoque (rows_all e (db w2)) (rows_movimentacoes e (db w3))), w3)))
          else (Inr (Render_estoque [] []), w1)))"

definition add_movimentacao :: "env \<Rightarrow> request \<Rightarrow> world \<Rightarrow> outcome" where
  "add_movimentacao e req w =
     (case user_id (session w) of
        None \<Rightarrow> (Inr (Redirect Login), w)
      | Some uid \<Rightarrow>
     (case form req ''id_peca'' of
        None \<Rightarrow> (Inl (BadRequestKeyError ''id_peca''), w)
      | Some s1 \<Rightarrow>
     (case py_int s1 of
        None \<Rightarrow> (Inl ValueError, w)
      | Some id_peca \<Rightarrow>
     (case form req ''quantidade'' of
        None \<Rightarrow> (Inl (BadRequestKeyError ''quantidade''), w)
      | Some s2 \<Rightarrow>
     (case py_int s2 of
        None \<Rightarrow> (Inl ValueError, w)
      | Some quantidade \<Rightarrow>
     (case form req ''tipo_movimentacao'' of
        None \<Rightarrow> (Inl (BadRequestKeyError ''tipo_movimentacao''), w)
      | Some tipo_movimentacao \<Rightarrow>
       let data = (case form req ''data'' of None \<Rightarrow> now e | Some d \<Rightarrow> if d = [] then now e else d) in
       (case get_db_connection e w of (conn, w1) \<Rightarrow>
         if conn then
           (case execute e (Select_autopeca_by_id id_peca) w1 of
              Inl x \<Rightarrow> (Inr (Redirect Estoque), flash (Erro_registrar_movimentacao x) Error w1)
            | Inr w2 \<Rightarrow>
                (case fetchone (rows_by_id (db w2) id_peca) of
                   None \<Rightarrow> (Inr (Redirect Estoque), flash Autopeca_nao_encontrada Error w2)
                 | Some a \<Rightarrow>
                     let estoque_atual = ESTOQUE a;
                         novo_estoque =
                           (if upper tipo_movimentacao = ''ENTRADA'' then estoque_atual + quantidade
                            else estoque_atual - quantidade)
                     in
                     if upper tipo_movimentacao \<noteq> ''ENTRADA'' \<and> novo_estoque < 0
                     then (Inr (Redirect Estoque), flash Estoque_insuficiente Error w2)
                     else
                       (case execute e (Insert_movimentacoes uid id_peca data quantidade
                                          (upper tipo_movimentacao)) w2 of
                          Inl x \<Rightarrow> (Inr (Redirect Estoque), flash (Erro_registrar_movimentacao x) Error w2)
                        | Inr w3 \<Rightarrow>
                            (case execute e (Update_estoque novo_estoque id_peca) w3 of
                               Inl x \<Rightarrow> (Inr (Redirect Estoque), flash (Erro_registrar_movimentacao x) Error w3)
                             | Inr w4 \<Rightarrow>
                                 (case execute e Commit w4 of
                                    Inl x \<Rightarrow> (Inr (Redirect Estoque), flash (Erro_registrar_movimentacao x) Error w4)
                                  | Inr w5 \<Rightarrow>
                                      if novo_estoque < ESTOQUE_MINIMO a
                                      then (Inr (Redirect Estoque),
                                            flash (Alerta_estoque_minimo (NOME_PECA a) novo_estoque
                                                     (ESTOQUE_MINIMO a)) Warning w5)
                                      else (Inr (Redirect Estoque),
                                            flash Movimentacao_registrada Success w5))))))
         else (Inr (Redirect Estoque), w1))
     ))))))"

section \<open>Notions of the specification\<close>

text \<open>
  A case-insensitive comparison, as the specification words it: two texts of the same
  length whose characters agree up to the case of a letter.
\<close>

definition same_letter :: "char \<Rightarrow> char \<Rightarrow> bool" where
  "same_letter c d = (c = d \<or> (islower c \<and> d = upper_char c) \<or> (islower d \<and> c = upper_char d))"

definition ci_equal :: "string \<Rightarrow> string \<Rightarrow> bool" where
  "ci_equal s t = list_all2 same_letter s t"

text \<open>The engine accepts a sequence of statements, each in the state the previous ones left.\<close>

fun accepted :: "env \<Rightarrow> sql list \<Rightarrow> database \<Rightarrow> bool" where
  "accepted e [] d = True"
| "accepted e (q # qs) d = (rejects e q d = None \<and> accepted e qs (effect q d))"

text \<open>
  The validation of a create or update submission in the order the specification gives:
  parse, quantity, threshold, price; the first check that fails decides the message, and
  \<open>None\<close> means the submission is valid.
\<close>

definition invalid_message ::
  "message \<Rightarrow> int option \<Rightarrow> int option \<Rightarrow> pyfloat option \<Rightarrow> message option" where
  "invalid_message parse_message est est_min preco =
     (case (est, est_min, preco) of
        (Some x, Some y, Some z) \<Rightarrow>
          if x < 0 then Some Estoque_negativo
          else if y < 0 then Some Estoque_minimo_negativo
          else if le_zero z then Some Preco_nao_positivo
          else None
      | _ \<Rightarrow> Some parse_message)"

text \<open>The invariant of the parts table: no row carries a negative stock.\<close>

definition estoque_nao_negativo :: "database \<Rightarrow> bool" where
  "estoque_nao_negativo d = list_all (\<lambda>r. 0 \<le> ESTOQUE r) (autopeca d)"

section \<open>A concrete scenario\<close>

text \<open>
  One user, one part with stock 10 and minimum 5, a reachable engine that accepts every
  statement, and a \<open>float\<close> that reads the two prices used below.
\<close>

definition exemplo_env :: env where
  "exemplo_env =
     \<lparr>connect = None,
      rejects = (\<lambda>q d. None),
      float_of = (\<lambda>s. if s = ''9.5'' then Some (Finite (19 / 2))
                       else if s = ''0'' then Some (Finite 0) else None),
      now = ''2025-01-01 12:00:00'',
      like = (\<lambda>v p. True),
      order_by_nome = (\<lambda>rows. rows),
      order_by_data_desc = (\<lambda>rows. rows)\<rparr>"

definition exemplo_db :: database where
  "exemplo_db =
     \<lparr>usuario = [\<lparr>ID_USUARIO = 1, EMAIL = ''admin@saep.com'', SENHA = ''admin123'',
                   NOME = ''Administrador''\<rparr>],
      autopeca = [\<lparr>ID_PECA = 1, NOME_PECA = ''Filtro'', DESCRICAO = ''Filtro de oleo'',
                    ESTOQUE = 10, ESTOQUE_MINIMO = 5, NUM_SERIAL = ''F-100'',
                    COMPATIBILIDADE = ''Gol'', PRECO = Finite (19 / 2)\<rparr>],
      movimentacoes = [],
      prox_id_peca = 2\<rparr>"

definition exemplo_world :: world where
  "exemplo_world =
     \<lparr>session = \<lparr>user_id = Some 1, user_name = Some ''Administrador'', flashes = []\<rparr>,
      db = exemplo_db,
      connect_calls = 0\<rparr>"

definition movimento :: "string \<Rightarrow> string \<Rightarrow> string \<Rightarrow> request" where
  "movimento id_peca quantidade tipo =
     \<lparr>form = [''id_peca'' \<mapsto> id_peca, ''quantidade'' \<mapsto> quantidade,
              ''tipo_movimentacao'' \<mapsto> tipo],
      args = Map.empty\<rparr>"

definition cadastro :: "string \<Rightarrow> string \<Rightarrow> string \<Rightarrow> request" where
  "cadastro est est_min preco =
     \<lparr>form = [''nome_peca'' \<mapsto> ''Vela'', ''descricao'' \<mapsto> ''Vela de ignicao'',
              ''num_serie'' \<mapsto> ''V-7'', ''compatibilidade'' \<mapsto> ''Uno'',
              ''estoque'' \<mapsto> est, ''estoque_minimo'' \<mapsto> est_min, ''preco'' \<mapsto> preco],
      args = Map.empty\<rparr>"

section \<open>Evaluation and helper lemmas\<close>

lemmas py_int_eval = py_int_def strip_def isspace_def digit_of_def int_max_str_digits_def

lemmas exemplo_eval = exemplo_env_def exemplo_world_def exemplo_db_def movimento_def cadastro_def

lemmas handler_eval = get_db_connection_def execute_def flash_def rows_by_id_def fetchone_def
  upper_def upper_char_def

lemmas ci_eval = ci_equal_def same_letter_def islower_def upper_char_def

text \<open>
  Texts \<open>int\<close> refuses: one that starts with the separator 28, and one with more
  digits than the limit.
\<close>

lemma py_int_refuses_separator: "py_int [CHR 0x1C, CHR ''7''] = None"
  by (simp add: py_int_eval)

lemma py_int_refuses_long_text:
  "int_max_str_digits < length (filter (\<lambda>c. digit_of c \<noteq> None) (strip s)) \<Longrightarrow> py_int s = None"
  by (simp add: py_int_def)

lemma py_int_accepts_blanks: "py_int [CHR 0x09, CHR ''7'', CHR '' ''] = Some 7"
  by (simp add: py_int_eval)

text \<open>
  The handlers at such a text: the movement handler raises, the create handler flashes
  the parse error and writes nothing.
\<close>

lemma add_movimentacao_separator_raises:
  "add_movimentacao exemplo_env (movimento ''1'' [CHR 0x1C, CHR ''2'', CHR ''0''] ''saida'')
      exemplo_world
     = (Inl ValueError, exemplo_world)"
  by (simp add: add_movimentacao_def exemplo_eval py_int_eval)

lemma add_autopeca_separator_flashes:
  "add_autopeca exemplo_env (cadastro [CHR 0x1F, CHR ''3''] ''1'' ''9.5'') exemplo_world
     = (Inr (Redirect Autopecas), flash Valores_invalidos_add Error exemplo_world)"
  by (simp add: add_autopeca_def exemplo_eval py_int_eval)

lemma upper_char_fix: "\<not> islower c \<Longrightarrow> upper_char c = c"
  by (simp add: upper_char_def islower_def)

lemma upper_char_same_letter: "\<not> islower d \<Longrightarrow> (upper_char c = d) = same_letter c d"
  unfolding same_letter_def
  by (cases "islower c") (auto simp: upper_char_fix)

lemma upper_eq_ci_equal:
  "list_all (\<lambda>d. \<not> islower d) u \<Longrightarrow> (upper t = u) = ci_equal t u"
proof (induction t arbitrary: u)
  case Nil
  then show ?case by (auto simp: upper_def ci_equal_def)
next
  case (Cons c t)
  show ?case
  proof (cases u)
    case Nil
    then show ?thesis by (simp add: upper_def ci_equal_def)
  next
    case (Cons d u')
    with Cons.prems have d: "\<not> islower d" and u': "list_all (\<lambda>d. \<not> islower d) u'"
      by simp_all
    from Cons.IH[OF u'] have "(map upper_char t = u') = list_all2 same_letter t u'"
      by (simp add: upper_def ci_equal_def)
    with d Cons show ?thesis
      by (simp add: upper_def ci_equal_def upper_char_same_letter)
  qed
qed

lemma upper_ENTRADA: "(upper t = ''ENTRADA'') = ci_equal t ''ENTRADA''"
  by (rule upper_eq_ci_equal) (simp add: islower_def)

lemma filter_update_estoque:
  "filter (\<lambda>r. ID_PECA r = i) (map (\<lambda>r. if ID_PECA r = i then r\<lparr>ESTOQUE := n\<rparr> else r) rows)
     = map (\<lambda>r. r\<lparr>ESTOQUE := n\<rparr>) (filter (\<lambda>r. ID_PECA r = i) rows)"
  by (induction rows) auto

lemma rows_by_id_Update_estoque:
  "rows_by_id (effect (Update_estoque n i) d) i = map (\<lambda>r. r\<lparr>ESTOQUE := n\<rparr>) (rows_by_id d i)"
  by (simp add: rows_by_id_def filter_update_estoque)

lemma rows_by_id_Insert_movimentacoes:
  "rows_by_id (effect (Insert_movimentacoes u j dt q t) d) i = rows_by_id d i"
  by (simp add: rows_by_id_def)

lemma fetchone_map: "fetchone (map f rows) = map_option f (fetchone rows)"
  by (cases rows) (simp_all add: fetchone_def)

lemma filter_other_ids_missing:
  "i \<notin> ID_PECA ` set rows \<Longrightarrow> filter (\<lambda>r. ID_PECA r \<noteq> i) rows = rows"
  by (intro filter_True) auto

lemma rows_by_id_missing:
  assumes "i \<notin> ID_PECA ` set (autopeca d)"
  shows "rows_by_id d i = []"
  unfolding rows_by_id_def using assms by (intro filter_False) auto

section \<open>Session guard\<close>

text \<open>
  C7: a protected route whose session holds no \<open>user_id\<close> answers with a redirect to
  the login route and leaves the whole state as it was: no call of \<open>pymysql.connect\<close>
  is counted, no table changes, nothing is flashed.
\<close>

theorem protected_routes_redirect_to_login:
  assumes "user_id (session w) = None"
  shows "dashboard w = (Inr (Redirect Login), w)
       \<and> autopecas e req w = (Inr (Redirect Login), w)
       \<and> add_autopeca e req w = (Inr (Redirect Login), w)
       \<and> edit_autopeca e i w = (Inr (Redirect Login), w)
       \<and> update_autopeca e i req w = (Inr (Redirect Login), w)
       \<and> delete_autopeca e i w = (Inr (Redirect Login), w)
       \<and> estoque e w = (Inr (Redirect Login), w)
       \<and> add_movimentacao e req w = (Inr (Redirect Login), w)"
  using assms
  by (simp add: dashboard_def autopecas_def add_autopeca_def edit_autopeca_def
      update_autopeca_def delete_autopeca_def estoque_def add_movimentacao_def)

text \<open>
  The routes after a logout: the session is cleared, so each of them redirects.
\<close>

theorem protected_routes_redirect_to_login_witness:
  "user_id (session (snd (logout exemplo_world))) = None
   \<and> dashboard (snd (logout exemplo_world)) = (Inr (Redirect Login), snd (logout exemplo_world))
   \<and> autopecas exemplo_env (movimento ''1'' ''3'' ''SAIDA'') (snd (logout exemplo_world))
       = (Inr (Redirect Login), snd (logout exemplo_world))
   \<and> add_autopeca exemplo_env (movimento ''1'' ''3'' ''SAIDA'') (snd (logout exemplo_world))
       = (Inr (Redirect Login), snd (logout exemplo_world))
   \<and> edit_autopeca exemplo_env 1 (snd (logout exemplo_world))
       = (Inr (Redirect Login), snd (logout exemplo_world))
   \<and> update_autopeca exemplo_env 1 (movimento ''1'' ''3'' ''SAIDA'') (snd (logout exemplo_world))
       = (Inr (Redirect Login), snd (logout exemplo_world))
   \<and> delete_autopeca exemplo_env 1 (snd (logout exemplo_world))
       = (Inr (Redirect Login), snd (logout exemplo_world))
   \<and> estoque exemplo_env (snd (logout exemplo_world))
       = (Inr (Redirect Login), snd (logout exemplo_world))
   \<and> add_movimentacao exemplo_env (movimento ''1'' ''3'' ''SAIDA'') (snd (logout exemplo_world))
       = (Inr (Redirect Login), snd (logout exemplo_world))"
proof -
  have h: "user_id (session (snd (logout exemplo_world))) = None"
    by (simp add: logout_def)
  from h protected_routes_redirect_to_login [OF h, of exemplo_env "movimento ''1'' ''3'' ''SAIDA''" 1]
  show ?thesis by blast
qed

section \<open>Part catalog\<close>

text \<open>
  C9: when \<open>pymysql.connect\<close> fails, the list route of a logged-in user renders the
  page with the empty list of parts and the submitted search text, after flashing the
  connection error; it raises nothing, and this for a request with or without a search
  text.
\<close>

theorem autopecas_connection_failure:
  assumes "user_id (session w) \<noteq> None" and "connect e = Some f"
  shows "autopecas e req w =
           (Inr (Render_autopecas [] (case args req ''search'' of None \<Rightarrow> [] | Some s \<Rightarrow> s)),
            flash (case f of MySQL_error x \<Rightarrow> Erro_conectar_MySQL x
                           | General_error x \<Rightarrow> Erro_geral_conectar x) Error
              (w\<lparr>connect_calls := connect_calls w + 1\<rparr>))"
  using assms
  by (cases f) (simp_all add: autopecas_def get_db_connection_def Let_def)

text \<open>
  A search for "filtro" while the engine refuses the connection.
\<close>

theorem autopecas_connection_failure_witness:
  "autopecas (exemplo_env\<lparr>connect := Some (MySQL_error ''Connection refused'')\<rparr>)
      \<lparr>form = Map.empty, args = [''search'' \<mapsto> ''filtro'']\<rparr> exemplo_world
     = (Inr (Render_autopecas [] ''filtro''),
        flash (Erro_conectar_MySQL ''Connection refused'') Error
          (exemplo_world\<lparr>connect_calls := 1\<rparr>))"
  using autopecas_connection_failure
    [of exemplo_world "exemplo_env\<lparr>connect := Some (MySQL_error ''Connection refused'')\<rparr>"
        "MySQL_error ''Connection refused''" "\<lparr>form = Map.empty, args = [''search'' \<mapsto> ''filtro'']\<rparr>"]
  by (simp add: exemplo_eval)

text \<open>
  C5: a create or update submission of a logged-in user that carries all seven fields
  and whose quantity, threshold or price does not parse, or whose quantity is negative,
  or whose threshold is negative, or whose price is not above zero, creates and changes
  no row and opens no connection. The create handler redirects to the list, the update
  handler to the edit form of the same part, each flashing as an error the message of
  the first check that fails in the order parse, quantity, threshold, price.
\<close>

theorem invalid_submission_changes_nothing:
  assumes "user_id (session w) \<noteq> None"
    and "form req ''nome_peca'' = Some nome" and "form req ''descricao'' = Some descr"
    and "form req ''num_serie'' = Some serie" and "form req ''compatibilidade'' = Some compatib"
    and "form req ''estoque'' = Some s1" and "form req ''estoque_minimo'' = Some s2"
    and "form req ''preco'' = Some s3"
    and "py_int s1 = None \<or> py_int s2 = None \<or> float_of e s3 = None
         \<or> (\<exists>x. py_int s1 = Some x \<and> x < 0)
         \<or> (\<exists>y. py_int s2 = Some y \<and> y < 0)
         \<or> (\<exists>z. float_of e s3 = Some z \<and> le_zero z)"
  shows "(\<exists>m. invalid_message Valores_invalidos_add (py_int s1) (py_int s2) (float_of e s3) = Some m
            \<and> add_autopeca e req w = (Inr (Redirect Autopecas), flash m Error w))
       \<and> (\<exists>m. invalid_message Valores_invalidos_update (py_int s1) (py_int s2) (float_of e s3) = Some m
            \<and> update_autopeca e i req w = (Inr (Redirect (Edit_autopeca i)), flash m Error w))
       \<and> db (snd (add_autopeca e req w)) = db w
       \<and> connect_calls (snd (add_autopeca e req w)) = connect_calls w
       \<and> db (snd (update_autopeca e i req w)) = db w
       \<and> connect_calls (snd (update_autopeca e i req w)) = connect_calls w"
  using assms
  by (auto simp: add_autopeca_def update_autopeca_def invalid_message_def flash_def
      split: option.splits)

text \<open>
  A submission with the price "0": the price check is the first to fail.
\<close>

theorem invalid_submission_changes_nothing_witness:
  "add_autopeca exemplo_env (cadastro ''3'' ''1'' ''0'') exemplo_world
     = (Inr (Redirect Autopecas), flash Preco_nao_positivo Error exemplo_world)
   \<and> update_autopeca exemplo_env 1 (cadastro ''3'' ''1'' ''0'') exemplo_world
     = (Inr (Redirect (Edit_autopeca 1)), flash Preco_nao_positivo Error exemplo_world)
   \<and> db (snd (add_autopeca exemplo_env (cadastro ''3'' ''1'' ''0'') exemplo_world)) = db exemplo_world
   \<and> db (snd (update_autopeca exemplo_env 1 (cadastro ''3'' ''1'' ''0'') exemplo_world)) = db exemplo_world"
proof -
  have h1: "user_id (session exemplo_world) \<noteq> None" by (simp add: exemplo_world_def)
  have f: "form (cadastro ''3'' ''1'' ''0'') ''nome_peca'' = Some ''Vela''"
    "form (cadastro ''3'' ''1'' ''0'') ''descricao'' = Some ''Vela de ignicao''"
    "form (cadastro ''3'' ''1'' ''0'') ''num_serie'' = Some ''V-7''"
    "form (cadastro ''3'' ''1'' ''0'') ''compatibilidade'' = Some ''Uno''"
    "form (cadastro ''3'' ''1'' ''0'') ''estoque'' = Some ''3''"
    "form (cadastro ''3'' ''1'' ''0'') ''estoque_minimo'' = Some ''1''"
    "form (cadastro ''3'' ''1'' ''0'') ''preco'' = Some ''0''"
    by (simp_all add: cadastro_def)
  have p: "py_int ''3'' = Some 3" "py_int ''1'' = Some 1"
    "float_of exemplo_env ''0'' = Some (Finite 0)"
    by (simp_all add: py_int_eval exemplo_env_def)
  have bad: "py_int ''3'' = None \<or> py_int ''1'' = None \<or> float_of exemplo_env ''0'' = None
         \<or> (\<exists>x. py_int ''3'' = Some x \<and> x < 0)
         \<or> (\<exists>y. py_int ''1'' = Some y \<and> y < 0)
         \<or> (\<exists>z. float_of exemplo_env ''0'' = Some z \<and> le_zero z)"
    by (simp add: p)
  have m: "invalid_message pm (Some 3) (Some 1) (Some (Finite 0)) = Some Preco_nao_positivo" for pm
    by (simp add: invalid_message_def)
  from invalid_submission_changes_nothing [OF h1 f bad, of 1]
  show ?thesis by (simp add: p m flash_def)
qed

text \<open>
  The create and the update handler keep the invariant whatever is submitted: they
  compare the quantity with zero before they write.
\<close>

lemma add_autopeca_keeps_stock_nonnegative:
  "estoque_nao_negativo (db w) \<Longrightarrow> estoque_nao_negativo (db (snd (add_autopeca e req w)))"
  by (auto simp: add_autopeca_def get_db_connection_def execute_def flash_def Let_def
      estoque_nao_negativo_def split: option.splits conn_failure.splits)

lemma update_autopeca_keeps_stock_nonnegative:
  "estoque_nao_negativo (db w) \<Longrightarrow> estoque_nao_negativo (db (snd (update_autopeca e i req w)))"
  by (auto simp: update_autopeca_def get_db_connection_def execute_def flash_def Let_def
      estoque_nao_negativo_def list_all_iff split: option.splits conn_failure.splits)

text \<open>
  C8: for an identifier that no row of the parts table carries, the edit route and the
  delete route of a logged-in user both answer with a redirect to the list and leave the
  tables unchanged; neither raises, whatever the engine does. The edit route flashes
  "not found" last.
\<close>

theorem missing_id_edit_and_delete:
  assumes "user_id (session w) \<noteq> None" and "i \<notin> ID_PECA ` set (autopeca (db w))"
  shows "fst (edit_autopeca e i w) = Inr (Redirect Autopecas)
       \<and> db (snd (edit_autopeca e i w)) = db w
       \<and> last (flashes (session (snd (edit_autopeca e i w)))) = (Error, Autopeca_nao_encontrada)
       \<and> fst (delete_autopeca e i w) = Inr (Redirect Autopecas)
       \<and> db (snd (delete_autopeca e i w)) = db w"
  using assms
  by (auto simp: edit_autopeca_def delete_autopeca_def get_db_connection_def execute_def
      flash_def Let_def fetchone_def rows_by_id_missing filter_other_ids_missing
      split: option.splits conn_failure.splits sum.splits prod.splits)

text \<open>
  The identifier 7 in a table that holds the part 1 only.
\<close>

theorem missing_id_edit_and_delete_witness:
  "7 \<notin> ID_PECA ` set (autopeca (db exemplo_world))
   \<and> fst (edit_autopeca exemplo_env 7 exemplo_world) = Inr (Redirect Autopecas)
   \<and> db (snd (edit_autopeca exemplo_env 7 exemplo_world)) = db exemplo_world
   \<and> last (flashes (session (snd (edit_autopeca exemplo_env 7 exemplo_world))))
       = (Error, Autopeca_nao_encontrada)
   \<and> fst (delete_autopeca exemplo_env 7 exemplo_world) = Inr (Redirect Autopecas)
   \<and> db (snd (delete_autopeca exemplo_env 7 exemplo_world)) = db exemplo_world"
proof -
  have h1: "user_id (session exemplo_world) \<noteq> None" by (simp add: exemplo_eval)
  have h2: "7 \<notin> ID_PECA ` set (autopeca (db exemplo_world))" by (simp add: exemplo_eval)
  from h2 missing_id_edit_and_delete [OF h1 h2, of exemplo_env] show ?thesis by blast
qed

section \<open>Stock movements\<close>

text \<open>
  C4 (input validation errors never leave a handler): the movement handler converts
  \<open>id_peca\<close> and \<open>quantidade\<close> with \<open>int()\<close> outside any \<open>try\<close>, unlike the create
  and update handlers. A logged-in submission with the quantity "abc" ends in a
  ValueError that leaves the handler, not in a redirect with a flashed message.
\<close>

theorem add_movimentacao_raises_ValueError:
  "add_movimentacao exemplo_env (movimento ''1'' ''abc'' ''SAIDA'') exemplo_world
     = (Inl ValueError, exemplo_world)"
  by (simp add: add_movimentacao_def exemplo_eval py_int_eval)

text \<open>
  C1 (the stored stock is never negative after a write): the movement handler checks the
  new stock only on the outbound branch. An inbound movement with the quantity -15 on the
  part with stock 10 is written, and the stored stock is -5.
\<close>

theorem add_movimentacao_stores_negative_stock:
  "map_option ESTOQUE (fetchone (rows_by_id (db (snd
      (add_movimentacao exemplo_env (movimento ''1'' ''-15'' ''ENTRADA'') exemplo_world))) 1))
     = Some (- 5)"
  by (simp add: add_movimentacao_def exemplo_eval py_int_eval handler_eval)

text \<open>
  C2: an outbound movement (a direction other than "ENTRADA" up to case) whose quantity
  exceeds the stock of the part it names leaves the tables unchanged: no movement row is
  inserted and the stock stays. When the user is logged in, the connection opens and the
  engine answers the lookup, the handler flashes "insufficient stock" and redirects to
  the stock view.
\<close>

theorem outbound_beyond_stock_writes_nothing:
  assumes "form req ''id_peca'' = Some s1" and "py_int s1 = Some i"
    and "form req ''quantidade'' = Some s2" and "py_int s2 = Some q"
    and "form req ''tipo_movimentacao'' = Some t" and "\<not> ci_equal t ''ENTRADA''"
    and "fetchone (rows_by_id (db w) i) = Some a" and "ESTOQUE a < q"
  shows "db (snd (add_movimentacao e req w)) = db w
       \<and> (user_id (session w) \<noteq> None \<and> connect e = None
            \<and> rejects e (Select_autopeca_by_id i) (db w) = None
          \<longrightarrow> add_movimentacao e req w =
                (Inr (Redirect Estoque),
                 flash Estoque_insuficiente Error (w\<lparr>connect_calls := connect_calls w + 1\<rparr>)))"
proof -
  from assms(6) have t: "upper t \<noteq> ''ENTRADA''" by (simp add: upper_ENTRADA)
  show ?thesis
    using assms(1-5,7,8) t
    by (auto simp: add_movimentacao_def get_db_connection_def execute_def flash_def Let_def
        split: option.splits conn_failure.splits)
qed

text \<open>
  An outbound movement of 20 on the part with stock 10.
\<close>

theorem outbound_beyond_stock_writes_nothing_witness:
  "\<not> ci_equal ''saida'' ''ENTRADA''
   \<and> db (snd (add_movimentacao exemplo_env (movimento ''1'' ''20'' ''saida'') exemplo_world))
       = db exemplo_world
   \<and> add_movimentacao exemplo_env (movimento ''1'' ''20'' ''saida'') exemplo_world
       = (Inr (Redirect Estoque),
          flash Estoque_insuficiente Error (exemplo_world\<lparr>connect_calls := 1\<rparr>))"
proof -
  have h1: "form (movimento ''1'' ''20'' ''saida'') ''id_peca'' = Some ''1''"
    and h3: "form (movimento ''1'' ''20'' ''saida'') ''quantidade'' = Some ''20''"
    and h5: "form (movimento ''1'' ''20'' ''saida'') ''tipo_movimentacao'' = Some ''saida''"
    by (simp_all add: movimento_def)
  have h2: "py_int ''1'' = Some 1" and h4: "py_int ''20'' = Some 20"
    by (simp_all add: py_int_eval)
  have h6: "\<not> ci_equal ''saida'' ''ENTRADA''" by (simp add: ci_eval)
  have h7: "fetchone (rows_by_id (db exemplo_world) 1) = Some (hd (autopeca exemplo_db))"
    by (simp add: exemplo_eval rows_by_id_def fetchone_def)
  have h8: "ESTOQUE (hd (autopeca exemplo_db)) < 20" by (simp add: exemplo_eval)
  have h9: "user_id (session exemplo_world) \<noteq> None" and h10: "connect exemplo_env = None"
    and h11: "rejects exemplo_env (Select_autopeca_by_id 1) (db exemplo_world) = None"
    and cc: "connect_calls exemplo_world = 0"
    by (simp_all add: exemplo_env_def exemplo_world_def)
  from h6 h9 h10 h11 outbound_beyond_stock_writes_nothing [OF h1 h2 h3 h4 h5 h6 h7 h8, of exemplo_env]
  show ?thesis by (simp add: cc flash_def)
qed

text \<open>
  C3: for a movement on an existing part, the stock the handler stores is the current
  stock plus the quantity when the direction equals "ENTRADA" up to case, and the
  current stock minus the quantity for every other direction; the handler answers every
  direction text with the redirect to the stock view. An outbound result below zero is
  not stored and the stock stays.
\<close>

theorem movement_new_stock:
  assumes "user_id (session w) = Some uid"
    and "form req ''id_peca'' = Some s1" and "py_int s1 = Some i"
    and "form req ''quantidade'' = Some s2" and "py_int s2 = Some q"
    and "form req ''tipo_movimentacao'' = Some t"
    and "data = (case form req ''data'' of None \<Rightarrow> now e | Some d \<Rightarrow> if d = [] then now e else d)"
    and "connect e = None"
    and "fetchone (rows_by_id (db w) i) = Some a"
    and "novo = (if ci_equal t ''ENTRADA'' then ESTOQUE a + q else ESTOQUE a - q)"
    and "accepted e [Select_autopeca_by_id i, Insert_movimentacoes uid i data q (upper t),
                     Update_estoque novo i] (db w)"
  shows "fst (add_movimentacao e req w) = Inr (Redirect Estoque)
       \<and> map_option ESTOQUE (fetchone (rows_by_id (db (snd (add_movimentacao e req w))) i))
           = Some (if \<not> ci_equal t ''ENTRADA'' \<and> novo < 0 then ESTOQUE a else novo)"
proof -
  have t: "(upper t = ''ENTRADA'') = ci_equal t ''ENTRADA''" by (rule upper_ENTRADA)
  show ?thesis
  proof (cases "ci_equal t ''ENTRADA''")
    case True
    with assms t show ?thesis
      by (auto simp: add_movimentacao_def get_db_connection_def execute_def flash_def Let_def
          rows_by_id_Update_estoque rows_by_id_Insert_movimentacoes fetchone_map
          simp del: effect.simps(4,5) split: option.splits sum.splits)
  next
    case False
    with assms t show ?thesis
      by (auto simp: add_movimentacao_def get_db_connection_def execute_def flash_def Let_def
          rows_by_id_Update_estoque rows_by_id_Insert_movimentacoes fetchone_map
          simp del: effect.simps(4,5) split: option.splits sum.splits)
  qed
qed

text \<open>
  An inbound movement of 5, written in lower case, on the part with stock 10.
\<close>

theorem movement_new_stock_witness:
  "ci_equal ''entrada'' ''ENTRADA''
   \<and> fst (add_movimentacao exemplo_env (movimento ''1'' ''5'' ''entrada'') exemplo_world)
       = Inr (Redirect Estoque)
   \<and> map_option ESTOQUE (fetchone (rows_by_id (db (snd
        (add_movimentacao exemplo_env (movimento ''1'' ''5'' ''entrada'') exemplo_world))) 1))
       = Some 15"
proof -
  have h1: "user_id (session exemplo_world) = Some 1" by (simp add: exemplo_world_def)
  have f: "form (movimento ''1'' ''5'' ''entrada'') ''id_peca'' = Some ''1''"
    "form (movimento ''1'' ''5'' ''entrada'') ''quantidade'' = Some ''5''"
    "form (movimento ''1'' ''5'' ''entrada'') ''tipo_movimentacao'' = Some ''entrada''"
    by (simp_all add: movimento_def)
  have p: "py_int ''1'' = Some 1" "py_int ''5'' = Some 5" by (simp_all add: py_int_eval)
  have c: "connect exemplo_env = None" by (simp add: exemplo_env_def)
  have a: "fetchone (rows_by_id (db exemplo_world) 1) = Some (hd (autopeca exemplo_db))"
    by (simp add: exemplo_eval rows_by_id_def fetchone_def)
  have s: "ESTOQUE (hd (autopeca exemplo_db)) = 10" by (simp add: exemplo_db_def)
  have ci: "ci_equal ''entrada'' ''ENTRADA''" by (simp add: ci_eval)
  have acc: "accepted exemplo_env qs d" for qs d
    by (induction qs arbitrary: d) (simp_all add: exemplo_env_def)
  from ci movement_new_stock [OF h1 f(1) p(1) f(2) p(2) f(3) refl c a refl acc]
  show ?thesis by (simp add: s)
qed

text \<open>
  C6: a movement that passes the stock check and whose statements and commit the engine
  accepts flashes exactly one message: the warning that names the part, the new stock
  and the minimum when the new stock is below the part's minimum, and the plain success
  message otherwise, also when the new stock equals the minimum.
\<close>

theorem written_movement_flash:
  assumes "user_id (session w) = Some uid"
    and "form req ''id_peca'' = Some s1" and "py_int s1 = Some i"
    and "form req ''quantidade'' = Some s2" and "py_int s2 = Some q"
    and "form req ''tipo_movimentacao'' = Some t"
    and "data = (case form req ''data'' of None \<Rightarrow> now e | Some d \<Rightarrow> if d = [] then now e else d)"
    and "connect e = None"
    and "fetchone (rows_by_id (db w) i) = Some a"
    and "novo = (if ci_equal t ''ENTRADA'' then ESTOQUE a + q else ESTOQUE a - q)"
    and "ci_equal t ''ENTRADA'' \<or> 0 \<le> novo"
    and "accepted e [Select_autopeca_by_id i, Insert_movimentacoes uid i data q (upper t),
                     Update_estoque novo i, Commit] (db w)"
  shows "add_movimentacao e req w =
           (Inr (Redirect Estoque),
            flash (if novo < ESTOQUE_MINIMO a
                   then Alerta_estoque_minimo (NOME_PECA a) novo (ESTOQUE_MINIMO a)
                   else Movimentacao_registrada)
                  (if novo < ESTOQUE_MINIMO a then Warning else Success)
                  (w\<lparr>connect_calls := connect_calls w + 1,
                     db := effect (Update_estoque novo i)
                             (effect (Insert_movimentacoes uid i data q (upper t)) (db w))\<rparr>))
       \<and> flashes (session (snd (add_movimentacao e req w))) =
           flashes (session w) @
             [if novo < ESTOQUE_MINIMO a
              then (Warning, Alerta_estoque_minimo (NOME_PECA a) novo (ESTOQUE_MINIMO a))
              else (Success, Movimentacao_registrada)]"
proof -
  have t: "(upper t = ''ENTRADA'') = ci_equal t ''ENTRADA''" by (rule upper_ENTRADA)
  have "add_movimentacao e req w =
           (Inr (Redirect Estoque),
            flash (if novo < ESTOQUE_MINIMO a
                   then Alerta_estoque_minimo (NOME_PECA a) novo (ESTOQUE_MINIMO a)
                   else Movimentacao_registrada)
                  (if novo < ESTOQUE_MINIMO a then Warning else Success)
                  (w\<lparr>connect_calls := connect_calls w + 1,
                     db := effect (Update_estoque novo i)
                             (effect (Insert_movimentacoes uid i data q (upper t)) (db w))\<rparr>))"
  proof (cases "ci_equal t ''ENTRADA''")
    case True
    with assms t show ?thesis
      by (auto simp: add_movimentacao_def get_db_connection_def execute_def flash_def Let_def
          simp del: effect.simps(4,5) split: option.splits)
  next
    case False
    with assms t show ?thesis
      by (auto simp: add_movimentacao_def get_db_connection_def execute_def flash_def Let_def
          simp del: effect.simps(4,5) split: option.splits)
  qed
  then show ?thesis by (simp add: flash_def)
qed

text \<open>
  An outbound movement of 6 on the part with stock 10 and minimum 5 leaves 4.
\<close>

theorem written_movement_flash_witness:
  "add_movimentacao exemplo_env (movimento ''1'' ''6'' ''SAIDA'') exemplo_world
     = (Inr (Redirect Estoque),
        flash (Alerta_estoque_minimo ''Filtro'' 4 5) Warning
          (exemplo_world\<lparr>connect_calls := 1,
             db := effect (Update_estoque 4 1)
                     (effect (Insert_movimentacoes 1 1 ''2025-01-01 12:00:00'' 6 ''SAIDA'')
                        exemplo_db)\<rparr>))
   \<and> flashes (session (snd
        (add_movimentacao exemplo_env (movimento ''1'' ''6'' ''SAIDA'') exemplo_world)))
       = [(Warning, Alerta_estoque_minimo ''Filtro'' 4 5)]"
proof -
  have h1: "user_id (session exemplo_world) = Some 1" by (simp add: exemplo_world_def)
  have f: "form (movimento ''1'' ''6'' ''SAIDA'') ''id_peca'' = Some ''1''"
    "form (movimento ''1'' ''6'' ''SAIDA'') ''quantidade'' = Some ''6''"
    "form (movimento ''1'' ''6'' ''SAIDA'') ''tipo_movimentacao'' = Some ''SAIDA''"
    "form (movimento ''1'' ''6'' ''SAIDA'') ''data'' = None"
    by (simp_all add: movimento_def)
  have p: "py_int ''1'' = Some 1" "py_int ''6'' = Some 6" by (simp_all add: py_int_eval)
  have c: "connect exemplo_env = None" "now exemplo_env = ''2025-01-01 12:00:00''"
    "connect_calls exemplo_world = 0" "db exemplo_world = exemplo_db"
    by (simp_all add: exemplo_env_def exemplo_world_def)
  have a: "fetchone (rows_by_id (db exemplo_world) 1) = Some (hd (autopeca exemplo_db))"
    by (simp add: exemplo_eval rows_by_id_def fetchone_def)
  have s: "ESTOQUE (hd (autopeca exemplo_db)) = 10" "ESTOQUE_MINIMO (hd (autopeca exemplo_db)) = 5"
    "NOME_PECA (hd (autopeca exemplo_db)) = ''Filtro''"
    by (simp_all add: exemplo_db_def)
  have ci: "\<not> ci_equal ''SAIDA'' ''ENTRADA''" by (simp add: ci_eval)
  have u: "upper ''SAIDA'' = ''SAIDA''" by (simp add: upper_def upper_char_def)
  have ok: "ci_equal ''SAIDA'' ''ENTRADA'' \<or>
      0 \<le> (if ci_equal ''SAIDA'' ''ENTRADA'' then ESTOQUE (hd (autopeca exemplo_db)) + 6
            else ESTOQUE (hd (autopeca exemplo_db)) - 6)"
    by (simp add: ci s)
  have acc: "accepted exemplo_env qs d" for qs d
    by (induction qs arbitrary: d) (simp_all add: exemplo_env_def)
  have fl: "flashes (session exemplo_world) = []" by (simp add: exemplo_world_def)
  from written_movement_flash [OF h1 f(1) p(1) f(2) p(2) f(3) refl c(1) a refl ok acc]
  have "add_movimentacao exemplo_env (movimento ''1'' ''6'' ''SAIDA'') exemplo_world
     = (Inr (Redirect Estoque),
        flash (Alerta_estoque_minimo ''Filtro'' 4 5) Warning
          (exemplo_world\<lparr>connect_calls := 1,
             db := effect (Update_estoque 4 1)
                     (effect (Insert_movimentacoes 1 1 ''2025-01-01 12:00:00'' 6 ''SAIDA'')
                        exemplo_db)\<rparr>))"
    and "flashes (session (snd
        (add_movimentacao exemplo_env (movimento ''1'' ''6'' ''SAIDA'') exemplo_world)))
       = [(Warning, Alerta_estoque_minimo ''Filtro'' 4 5)]"
    by (simp_all add: s ci u f c fl flash_def del: effect.simps)
  then show ?thesis by (rule conjI)
qed

text \<open>
  C10: the movement row the handler inserts carries the current time when the form has
  no \<open>data\<close> field or an empty one, and the submitted text unchanged otherwise.
\<close>

theorem movement_timestamp:
  assumes "user_id (session w) = Some uid"
    and "form req ''id_peca'' = Some s1" and "py_int s1 = Some i"
    and "form req ''quantidade'' = Some s2" and "py_int s2 = Some q"
    and "form req ''tipo_movimentacao'' = Some t"
    and "data = (case form req ''data'' of None \<Rightarrow> now e | Some d \<Rightarrow> if d = [] then now e else d)"
    and "connect e = None"
    and "fetchone (rows_by_id (db w) i) = Some a"
    and "ci_equal t ''ENTRADA'' \<or> q \<le> ESTOQUE a"
    and "accepted e [Select_autopeca_by_id i, Insert_movimentacoes uid i data q (upper t)] (db w)"
  shows "movimentacoes (db (snd (add_movimentacao e req w))) =
           movimentacoes (db w) @
             [\<lparr>MOVI_ID_USUARIO = uid, MOVI_ID_PECA = i,
               DATA_MOVI = (case form req ''data'' of
                              None \<Rightarrow> now e
                            | Some d \<Rightarrow> if d = [] then now e else d),
               QUANTIDADE = q, TIPO_MOVI = upper t\<rparr>]"
proof -
  have t: "(upper t = ''ENTRADA'') = ci_equal t ''ENTRADA''" by (rule upper_ENTRADA)
  show ?thesis
  proof (cases "ci_equal t ''ENTRADA''")
    case True
    with assms t show ?thesis
      by (auto simp: add_movimentacao_def get_db_connection_def execute_def flash_def Let_def
          split: option.splits)
  next
    case False
    with assms t show ?thesis
      by (auto simp: add_movimentacao_def get_db_connection_def execute_def flash_def Let_def
          split: option.splits)
  qed
qed

text \<open>
  The same movement without a \<open>data\<close> field, and with the text "ontem" in it.
\<close>

theorem movement_timestamp_witness:
  "movimentacoes (db (snd
      (add_movimentacao exemplo_env (movimento ''1'' ''6'' ''SAIDA'') exemplo_world)))
     = [\<lparr>MOVI_ID_USUARIO = 1, MOVI_ID_PECA = 1, DATA_MOVI = ''2025-01-01 12:00:00'',
          QUANTIDADE = 6, TIPO_MOVI = ''SAIDA''\<rparr>]
   \<and> movimentacoes (db (snd
      (add_movimentacao exemplo_env
         ((movimento ''1'' ''6'' ''SAIDA'')
            \<lparr>form := (form (movimento ''1'' ''6'' ''SAIDA''))(''data'' \<mapsto> ''ontem'')\<rparr>)
         exemplo_world)))
     = [\<lparr>MOVI_ID_USUARIO = 1, MOVI_ID_PECA = 1, DATA_MOVI = ''ontem'',
          QUANTIDADE = 6, TIPO_MOVI = ''SAIDA''\<rparr>]"
proof -
  let ?r1 = "movimento ''1'' ''6'' ''SAIDA''"
  let ?r2 = "?r1\<lparr>form := (form ?r1)(''data'' \<mapsto> ''ontem'')\<rparr>"
  have h1: "user_id (session exemplo_world) = Some 1" by (simp add: exemplo_world_def)
  have f1: "form ?r1 ''id_peca'' = Some ''1''" "form ?r1 ''quantidade'' = Some ''6''"
    "form ?r1 ''tipo_movimentacao'' = Some ''SAIDA''" "form ?r1 ''data'' = None"
    by (simp_all add: movimento_def)
  have f2: "form ?r2 ''id_peca'' = Some ''1''" "form ?r2 ''quantidade'' = Some ''6''"
    "form ?r2 ''tipo_movimentacao'' = Some ''SAIDA''" "form ?r2 ''data'' = Some ''ontem''"
    by (simp_all add: movimento_def)
  have p: "py_int ''1'' = Some 1" "py_int ''6'' = Some 6" by (simp_all add: py_int_eval)
  have c: "connect exemplo_env = None" "now exemplo_env = ''2025-01-01 12:00:00''"
    "movimentacoes (db exemplo_world) = []"
    by (simp_all add: exemplo_env_def exemplo_world_def exemplo_db_def)
  have a: "fetchone (rows_by_id (db exemplo_world) 1) = Some (hd (autopeca exemplo_db))"
    by (simp add: exemplo_eval rows_by_id_def fetchone_def)
  have ok: "ci_equal ''SAIDA'' ''ENTRADA'' \<or> 6 \<le> ESTOQUE (hd (autopeca exemplo_db))"
    by (simp add: exemplo_db_def)
  have u: "upper ''SAIDA'' = ''SAIDA''" by (simp add: upper_def upper_char_def)
  have acc: "accepted exemplo_env qs d" for qs d
    by (induction qs arbitrary: d) (simp_all add: exemplo_env_def)
  from movement_timestamp [OF h1 f1(1) p(1) f1(2) p(2) f1(3) refl c(1) a ok acc]
    movement_timestamp [OF h1 f2(1) p(1) f2(2) p(2) f2(3) refl c(1) a ok acc]
  show ?thesis by (simp add: f1 f2 c u)
qed

end
